theory Spec2Isabelle
  imports Main "HOL-Library.Word" "HOL-Library.Sublist"
begin

unbundle bit_operations_syntax

section \<open>Values exchanged with the server\<close>

text \<open>
  Every object the scripts handle comes out of \<^verbatim>\<open>response.json()\<close>: a Python dict, list,
  str, int, bool or None. A dict is an association list in insertion order (the order
  \<^verbatim>\<open>json.dumps\<close> writes); a str is a \<open>string\<close>, one \<open>char\<close> per code point below 256.
  Numbers are Python ints; floating-point members are outside this model.
\<close>

datatype json =
    JNull
  | JBool bool
  | JInt int
  | JStr string
  | JArr "json list"
  | JObj "(string \<times> json) list"

text \<open>The exceptions the scripts can meet. \<open>BinasciiError\<close> is a subclass of ValueError,
  \<open>HTTPError\<close>, \<open>ConnectionError\<close> and \<open>JSONDecodeError\<close> are subclasses of
  \<^verbatim>\<open>requests.exceptions.RequestException\<close>.\<close>

datatype exn =
    AttributeError
  | TypeError
  | KeyError
  | ValueError
  | BinasciiError
  | ConnectionError
  | HTTPError nat
  | JSONDecodeError

fun is_request_exception :: "exn \<Rightarrow> bool" where
  "is_request_exception ConnectionError = True"
| "is_request_exception (HTTPError _) = True"
| "is_request_exception JSONDecodeError = True"
| "is_request_exception _ = False"

text \<open>\<^verbatim>\<open>obj.get(key, default)\<close>: only a dict has the method.\<close>

fun py_get :: "json \<Rightarrow> string \<Rightarrow> json \<Rightarrow> exn + json" where
  "py_get (JObj kvs) k d = Inr (case map_of kvs k of None \<Rightarrow> d | Some v \<Rightarrow> v)"
| "py_get _ k d = Inl AttributeError"

text \<open>\<^verbatim>\<open>obj[key]\<close> with a string key: KeyError on a dict without the key, TypeError on
  every other value.\<close>

fun py_getitem :: "json \<Rightarrow> string \<Rightarrow> exn + json" where
  "py_getitem (JObj kvs) k = (case map_of kvs k of None \<Rightarrow> Inl KeyError | Some v \<Rightarrow> Inr v)"
| "py_getitem _ k = Inl TypeError"

text \<open>\<^verbatim>\<open>d[key] = value\<close> on a dict: an existing key keeps its place, a new key goes last.\<close>

fun dict_set :: "(string \<times> json) list \<Rightarrow> string \<Rightarrow> json \<Rightarrow> (string \<times> json) list" where
  "dict_set [] k v = [(k, v)]"
| "dict_set ((k', v') # kvs) k v =
     (if k' = k then (k, v) # kvs else (k', v') # dict_set kvs k v)"

fun py_setitem :: "json \<Rightarrow> string \<Rightarrow> json \<Rightarrow> exn + json" where
  "py_setitem (JObj kvs) k v = Inr (JObj (dict_set kvs k v))"
| "py_setitem _ k v = Inl TypeError"

text \<open>Truth value of an object, as \<^verbatim>\<open>if x:\<close> and \<^verbatim>\<open>not x\<close> take it.\<close>

fun py_truthy :: "json \<Rightarrow> bool" where
  "py_truthy JNull = False"
| "py_truthy (JBool b) = b"
| "py_truthy (JInt n) = (n \<noteq> 0)"
| "py_truthy (JStr s) = (s \<noteq> [])"
| "py_truthy (JArr xs) = (xs \<noteq> [])"
| "py_truthy (JObj kvs) = (kvs \<noteq> [])"

text \<open>\<^verbatim>\<open>for x in obj\<close>: the elements of a list, the characters of a str, the keys of a
  dict; the other values are not iterable.\<close>

fun py_iter :: "json \<Rightarrow> exn + json list" where
  "py_iter (JArr xs) = Inr xs"
| "py_iter (JStr s) = Inr (map (\<lambda>c. JStr [c]) s)"
| "py_iter (JObj kvs) = Inr (map (\<lambda>kv. JStr (fst kv)) kvs)"
| "py_iter _ = Inl TypeError"

text \<open>\<^verbatim>\<open>sub in s\<close> on two strings: \<open>sub\<close> occurs in \<open>s\<close> as a contiguous run.\<close>

fun str_contains :: "string \<Rightarrow> string \<Rightarrow> bool" where
  "str_contains sub [] = (sub = [])"
| "str_contains sub (c # cs) = (prefix sub (c # cs) \<or> str_contains sub cs)"

text \<open>\<^verbatim>\<open>sub in obj\<close> with a string on the left: substring test on a str, membership on a
  list, key membership on a dict, TypeError on the rest.\<close>

fun py_in :: "string \<Rightarrow> json \<Rightarrow> exn + bool" where
  "py_in sub (JStr s) = Inr (str_contains sub s)"
| "py_in sub (JArr xs) = Inr (JStr sub \<in> set xs)"
| "py_in sub (JObj kvs) = Inr (sub \<in> fst ` set kvs)"
| "py_in sub _ = Inl TypeError"

section \<open>QuoteCatalog: \<^verbatim>\<open>find_quote_by_route_id\<close>\<close>

text \<open>
  \<^verbatim>\<open>
  for quote in quotes.get("quotes", []):
      signable = quote.get("signableEntity", {})
      if route_id_substring in signable.get("routeId", ""):
          return quote
  return None
  \<close>
\<close>

fun find_quote_loop :: "json list \<Rightarrow> string \<Rightarrow> exn + json option" where
  "find_quote_loop [] route_id_substring = Inr None"
| "find_quote_loop (quote # rest) route_id_substring =
     (case py_get quote ''signableEntity'' (JObj []) of
        Inl e \<Rightarrow> Inl e
      | Inr signable \<Rightarrow>
          (case py_get signable ''routeId'' (JStr []) of
             Inl e \<Rightarrow> Inl e
           | Inr route_id \<Rightarrow>
               (case py_in route_id_substring route_id of
                  Inl e \<Rightarrow> Inl e
                | Inr True \<Rightarrow> Inr (Some quote)
                | Inr False \<Rightarrow> find_quote_loop rest route_id_substring)))"

definition find_quote_by_route_id :: "json \<Rightarrow> string \<Rightarrow> exn + json option" where
  "find_quote_by_route_id quotes route_id_substring =
     (case py_get quotes ''quotes'' (JArr []) of
        Inl e \<Rightarrow> Inl e
      | Inr qs \<Rightarrow>
          (case py_iter qs of
             Inl e \<Rightarrow> Inl e
           | Inr items \<Rightarrow> find_quote_loop items route_id_substring))"

text \<open>The route identifier of a quote shaped as the catalog sends it: the string under
  \<open>routeId\<close> inside the dict under \<open>signableEntity\<close>.\<close>

fun route_id_of :: "json \<Rightarrow> string option" where
  "route_id_of (JObj kvs) =
     (case map_of kvs ''signableEntity'' of
        Some (JObj se) \<Rightarrow> (case map_of se ''routeId'' of Some (JStr r) \<Rightarrow> Some r | _ \<Rightarrow> None)
      | _ \<Rightarrow> None)"
| "route_id_of _ = None"

definition route_matches :: "string \<Rightarrow> json \<Rightarrow> bool" where
  "route_matches sub q = (case route_id_of q of Some r \<Rightarrow> str_contains sub r | None \<Rightarrow> False)"

section \<open>Bytes, base64 and hex, as the Python standard library decodes them\<close>

type_synonym byte = "8 word"

definition is_ascii :: "char \<Rightarrow> bool" where
  "is_ascii c = (of_char c < (128 :: nat))"

text \<open>\<^verbatim>\<open>table_a2b_base64\<close> of \<^verbatim>\<open>binascii\<close>: the 6-bit value of a character of the standard
  alphabet \<^verbatim>\<open>A-Z a-z 0-9 + /\<close>, None for every other character.\<close>

definition b64_value :: "char \<Rightarrow> byte option" where
  "b64_value c =
     (let n = (of_char c :: nat) in
      if 65 \<le> n \<and> n \<le> 90 then Some (of_nat (n - 65))
      else if 97 \<le> n \<and> n \<le> 122 then Some (of_nat (n - 71))
      else if 48 \<le> n \<and> n \<le> 57 then Some (of_nat (n + 4))
      else if n = 43 then Some 62
      else if n = 47 then Some 63
      else None)"

text \<open>
  \<^verbatim>\<open>binascii.a2b_base64\<close> in its default, non-strict mode (CPython 3.11 and later), which
  \<^verbatim>\<open>base64.b64decode(s)\<close> calls. The state is the position in the current group of four
  (\<open>quad_pos\<close>), the bits left over from the previous character (\<open>leftchar\<close>), the number
  of padding characters counted (\<open>pads\<close>) and the bytes written. A character outside the
  alphabet is skipped; \<^verbatim>\<open>=\<close> ends the input once it completes a group that holds at least
  two characters and is skipped otherwise; at the end of the input an incomplete group is
  \<^verbatim>\<open>binascii.Error\<close>.
\<close>

fun a2b_base64 :: "nat \<Rightarrow> byte \<Rightarrow> nat \<Rightarrow> byte list \<Rightarrow> string \<Rightarrow> exn + byte list" where
  "a2b_base64 quad_pos leftchar pads out [] =
     (if quad_pos \<noteq> 0 then Inl BinasciiError else Inr out)"
| "a2b_base64 quad_pos leftchar pads out (c # cs) =
     (if c = CHR ''='' then
        (if 2 \<le> quad_pos \<and> 4 \<le> quad_pos + (pads + 1) then Inr out
         else a2b_base64 quad_pos leftchar (if 2 \<le> quad_pos then pads + 1 else pads) out cs)
      else
        (case b64_value c of
           None \<Rightarrow> a2b_base64 quad_pos leftchar pads out cs
         | Some this_ch \<Rightarrow>
             (if quad_pos = 0 then a2b_base64 1 this_ch 0 out cs
              else if quad_pos = 1 then
                a2b_base64 2 (this_ch AND 0x0f) 0
                  (out @ [push_bit 2 leftchar OR drop_bit 4 this_ch]) cs
              else if quad_pos = 2 then
                a2b_base64 3 (this_ch AND 0x03) 0
                  (out @ [push_bit 4 leftchar OR drop_bit 2 this_ch]) cs
              else
                a2b_base64 0 0 0 (out @ [push_bit 6 leftchar OR this_ch]) cs)))"

text \<open>\<^verbatim>\<open>base64.b64decode(s)\<close>: a str is first encoded as ASCII (ValueError when it has a
  character outside ASCII); a value that is neither str nor bytes-like is a TypeError.\<close>

fun b64decode :: "json \<Rightarrow> exn + byte list" where
  "b64decode (JStr s) = (if list_all is_ascii s then a2b_base64 0 0 0 [] s else Inl ValueError)"
| "b64decode _ = Inl TypeError"

text \<open>\<^verbatim>\<open>table_b2a_base64\<close> and \<^verbatim>\<open>base64.b64encode\<close>: three bytes give four characters, a
  last group of one or two bytes is padded with \<^verbatim>\<open>=\<close>.\<close>

definition b64_alphabet :: string where
  "b64_alphabet = ''ABCDEFGHIJKLMNOPQRSTUVWXYZabcdefghijklmnopqrstuvwxyz0123456789+/''"

definition b64_char :: "byte \<Rightarrow> char" where
  "b64_char v = b64_alphabet ! unat (v AND 0x3f)"

fun b64encode :: "byte list \<Rightarrow> string" where
  "b64encode [] = []"
| "b64encode [a] =
     [b64_char (drop_bit 2 a), b64_char (push_bit 4 (a AND 3)), CHR ''='', CHR ''='']"
| "b64encode [a, b] =
     [b64_char (drop_bit 2 a), b64_char (push_bit 4 (a AND 3) OR drop_bit 4 b),
      b64_char (push_bit 2 (b AND 15)), CHR ''='']"
| "b64encode (a # b # c # rest) =
     [b64_char (drop_bit 2 a), b64_char (push_bit 4 (a AND 3) OR drop_bit 4 b),
      b64_char (push_bit 2 (b AND 15) OR drop_bit 6 c), b64_char c] @ b64encode rest"

text \<open>\<^verbatim>\<open>_PyLong_DigitValue\<close> below 16 and \<^verbatim>\<open>Py_ISSPACE\<close>, as \<^verbatim>\<open>bytes.fromhex\<close> uses them.\<close>

definition hex_value :: "char \<Rightarrow> byte option" where
  "hex_value c =
     (let n = (of_char c :: nat) in
      if 48 \<le> n \<and> n \<le> 57 then Some (of_nat (n - 48))
      else if 97 \<le> n \<and> n \<le> 102 then Some (of_nat (n - 87))
      else if 65 \<le> n \<and> n \<le> 70 then Some (of_nat (n - 55))
      else None)"

definition is_space :: "char \<Rightarrow> bool" where
  "is_space c = (let n = (of_char c :: nat) in n = 32 \<or> (9 \<le> n \<and> n \<le> 13))"

text \<open>The loop of \<^verbatim>\<open>bytes.fromhex\<close>: white space is skipped between bytes, a byte is two
  hex digits in either case, anything else is a ValueError.\<close>

fun fromhex_loop :: "byte list \<Rightarrow> string \<Rightarrow> exn + byte list" where
  "fromhex_loop out [] = Inr out"
| "fromhex_loop out (c # cs) =
     (if is_space c then fromhex_loop out cs
      else
        (case hex_value c of
           None \<Rightarrow> Inl ValueError
         | Some top_digit \<Rightarrow>
             (case cs of
                [] \<Rightarrow> Inl ValueError
              | b # rest \<Rightarrow>
                  (case hex_value b of
                     None \<Rightarrow> Inl ValueError
                   | Some bot_digit \<Rightarrow>
                       fromhex_loop (out @ [push_bit 4 top_digit + bot_digit]) rest))))"

fun bytes_fromhex :: "json \<Rightarrow> exn + byte list" where
  "bytes_fromhex (JStr s) = (if list_all is_ascii s then fromhex_loop [] s else Inl ValueError)"
| "bytes_fromhex _ = Inl TypeError"

text \<open>
  \<^verbatim>\<open>
  def _is_base64(s):
      try:
          base64.b64decode(s)
          return True
      except:
          return False
  \<close>
\<close>

definition is_base64 :: "json \<Rightarrow> bool" where
  "is_base64 s = (case b64decode s of Inl e \<Rightarrow> False | Inr bs \<Rightarrow> True)"

section \<open>Serialising a token: \<^verbatim>\<open>json.dumps\<close> and \<^verbatim>\<open>urllib.parse.quote\<close>\<close>

definition hex_digit_lower :: "nat \<Rightarrow> char" where
  "hex_digit_lower n = ''0123456789abcdef'' ! (n mod 16)"

definition hex_digit_upper :: "nat \<Rightarrow> char" where
  "hex_digit_upper n = ''0123456789ABCDEF'' ! (n mod 16)"

text \<open>\<^verbatim>\<open>repr\<close> of a Python int: decimal digits, with a minus sign when negative.\<close>

definition digit_char :: "nat \<Rightarrow> char" where
  "digit_char n = char_of (48 + n mod 10)"

fun nat_digits :: "nat \<Rightarrow> string" where
  "nat_digits n = (if n < 10 then [digit_char n] else nat_digits (n div 10) @ [digit_char n])"

definition int_repr :: "int \<Rightarrow> string" where
  "int_repr i = (if i < 0 then CHR ''-'' # nat_digits (nat (- i)) else nat_digits (nat i))"

text \<open>
  \<^verbatim>\<open>json.dumps\<close> with its default \<^verbatim>\<open>ensure_ascii=True\<close>: inside a string the quote and
  the backslash are escaped with a backslash, backspace, form feed, newline, carriage
  return and tab have their short escapes, every other character outside
  \<^verbatim>\<open>' '..'~'\<close> is written \<^verbatim>\<open>\uXXXX\<close> with four lower-case hex digits.
\<close>

definition escape_char :: "char \<Rightarrow> string" where
  "escape_char c =
     (let n = (of_char c :: nat) in
      if n = 0x22 then [CHR 0x5C, CHR 0x22]
      else if n = 0x5C then [CHR 0x5C, CHR 0x5C]
      else if n = 0x0A then [CHR 0x5C, CHR ''n'']
      else if n = 0x0D then [CHR 0x5C, CHR ''r'']
      else if n = 0x09 then [CHR 0x5C, CHR ''t'']
      else if n = 0x08 then [CHR 0x5C, CHR ''b'']
      else if n = 0x0C then [CHR 0x5C, CHR ''f'']
      else if 0x20 \<le> n \<and> n \<le> 0x7E then [c]
      else [CHR 0x5C, CHR ''u'', CHR ''0'', CHR ''0'',
            hex_digit_lower (n div 16), hex_digit_lower n])"

definition encode_string :: "string \<Rightarrow> string" where
  "encode_string s = CHR 0x22 # concat (map escape_char s) @ [CHR 0x22]"

text \<open>\<^verbatim>\<open>json.dumps(obj, separators=(',', ':'))\<close>: no white space, members in dict order.\<close>

fun json_dumps :: "json \<Rightarrow> string"
  and dumps_items :: "json list \<Rightarrow> string"
  and dumps_members :: "(string \<times> json) list \<Rightarrow> string" where
  "json_dumps JNull = ''null''"
| "json_dumps (JBool b) = (if b then ''true'' else ''false'')"
| "json_dumps (JInt i) = int_repr i"
| "json_dumps (JStr s) = encode_string s"
| "json_dumps (JArr xs) = ''['' @ dumps_items xs @ '']''"
| "json_dumps (JObj kvs) = ''{'' @ dumps_members kvs @ ''}''"
| "dumps_items [] = []"
| "dumps_items [x] = json_dumps x"
| "dumps_items (x # y # ys) = json_dumps x @ '','' @ dumps_items (y # ys)"
| "dumps_members [] = []"
| "dumps_members [(k, v)] = encode_string k @ '':'' @ json_dumps v"
| "dumps_members ((k, v) # m # ms) =
     encode_string k @ '':'' @ json_dumps v @ '','' @ dumps_members (m # ms)"

text \<open>
  \<^verbatim>\<open>urllib.parse.quote(s, safe='')\<close>: the string is encoded as UTF-8, and every byte that
  is not a letter, a digit or one of \<^verbatim>\<open>_.-~\<close> is written \<^verbatim>\<open>%XX\<close> with upper-case hex
  digits.
\<close>

definition always_safe :: "char \<Rightarrow> bool" where
  "always_safe c =
     (let n = (of_char c :: nat) in
      (65 \<le> n \<and> n \<le> 90) \<or> (97 \<le> n \<and> n \<le> 122) \<or> (48 \<le> n \<and> n \<le> 57)
      \<or> n = 95 \<or> n = 46 \<or> n = 45 \<or> n = 126)"

definition utf8_encode_char :: "char \<Rightarrow> byte list" where
  "utf8_encode_char c =
     (let n = (of_char c :: nat) in
      if n < 128 then [of_nat n] else [of_nat (192 + n div 64), of_nat (128 + n mod 64)])"

definition quote_byte :: "byte \<Rightarrow> string" where
  "quote_byte b =
     (if unat b < 128 \<and> always_safe (char_of (unat b)) then [char_of (unat b)]
      else [CHR ''%'', hex_digit_upper (unat b div 16), hex_digit_upper (unat b)])"

definition quote :: "string \<Rightarrow> string" where
  "quote s = concat (map quote_byte (concat (map utf8_encode_char s)))"

section \<open>The signer, the server's replies and the trace of a run\<close>

text \<open>A \<^verbatim>\<open>Keypair\<close> as the scripts use it: its public key and its signing function.\<close>

record keypair =
  public_key :: string
  sign :: "byte list \<Rightarrow> byte list"

text \<open>
  What one HTTP request comes back with: no response at all (\<^verbatim>\<open>requests\<close> raises), a
  response whose \<^verbatim>\<open>ok\<close> is false (status code and text), or an ok response whose body
  \<^verbatim>\<open>response.json()\<close> decodes, or fails to decode.
\<close>

datatype reply =
    NoConnection
  | Status nat string
  | OkJson json
  | OkUndecodable

text \<open>What a run does to the outside: the requests it sends (URL, headers, JSON body),
  the byte strings it has a key sign (the key named by its public key), its sleeps.\<close>

datatype event =
    HttpGet string
  | HttpPost string "(string \<times> string) list" json
  | Sign string "byte list"
  | Sleep nat

text \<open>A request followed by \<^verbatim>\<open>raise_for_status()\<close> and \<^verbatim>\<open>response.json()\<close>.\<close>

fun fetch_json :: "reply \<Rightarrow> exn + json" where
  "fetch_json NoConnection = Inl ConnectionError"
| "fetch_json (Status code body) = Inl (HTTPError code)"
| "fetch_json (OkJson j) = Inr j"
| "fetch_json OkUndecodable = Inl JSONDecodeError"

section \<open>AccessTokenBroker: \<^verbatim>\<open>purchase_access_token\<close>\<close>

text \<open>
  Step 2:
  \<^verbatim>\<open>
  auth_to_sign = purchase_instruction.get("authorisationToSign", "")
  auth_bytes = bytes.fromhex(auth_to_sign) if not _is_base64(auth_to_sign)
               else base64.b64decode(auth_to_sign)
  signed_auth = keypair.sign(auth_bytes)
  purchase_instruction["authorisationToSign"] = base64.b64encode(signed_auth).decode('utf-8')
  \<close>
  The result is the bytes that were signed and the instruction with the signature in it.
\<close>

definition decode_authorisation :: "json \<Rightarrow> exn + byte list" where
  "decode_authorisation auth_to_sign =
     (if \<not> is_base64 auth_to_sign then bytes_fromhex auth_to_sign
      else b64decode auth_to_sign)"

definition sign_authorisation :: "keypair \<Rightarrow> json \<Rightarrow> exn + (byte list \<times> json)" where
  "sign_authorisation keypair purchase_instruction =
     (case py_get purchase_instruction ''authorisationToSign'' (JStr []) of
        Inl e \<Rightarrow> Inl e
      | Inr auth_to_sign \<Rightarrow>
          (case decode_authorisation auth_to_sign of
             Inl e \<Rightarrow> Inl e
           | Inr auth_bytes \<Rightarrow>
               (case py_setitem purchase_instruction ''authorisationToSign''
                       (JStr (b64encode (sign keypair auth_bytes))) of
                  Inl e \<Rightarrow> Inl e
                | Inr signed_instruction \<Rightarrow> Inr (auth_bytes, signed_instruction))))"

text \<open>
  Step 4:
  \<^verbatim>\<open>
  signable_entity = access_token.get("signableEntity", {})
  signature_to_sign = signable_entity.get("signature", "")
  if signature_to_sign:
      sig_bytes = base64.b64decode(signature_to_sign)
      token_signature = keypair.sign(sig_bytes)
      access_token["signature"] = base64.b64encode(token_signature).decode('utf-8')
  \<close>
  The result is the bytes that were signed, if any, and the token as it is serialised.
\<close>

definition sign_token :: "keypair \<Rightarrow> json \<Rightarrow> exn + (byte list option \<times> json)" where
  "sign_token keypair access_token =
     (case py_get access_token ''signableEntity'' (JObj []) of
        Inl e \<Rightarrow> Inl e
      | Inr signable_entity \<Rightarrow>
          (case py_get signable_entity ''signature'' (JStr []) of
             Inl e \<Rightarrow> Inl e
           | Inr signature_to_sign \<Rightarrow>
               if py_truthy signature_to_sign then
                 (case b64decode signature_to_sign of
                    Inl e \<Rightarrow> Inl e
                  | Inr sig_bytes \<Rightarrow>
                      (case py_setitem access_token ''signature''
                              (JStr (b64encode (sign keypair sig_bytes))) of
                         Inl e \<Rightarrow> Inl e
                       | Inr signed_token \<Rightarrow> Inr (Some sig_bytes, signed_token)))
               else Inr (None, access_token)))"

text \<open>The whole purchase, against the server's replies to the two requests. The result is
  the credential, or the exception that ended the purchase, and the trace up to there.\<close>

definition purchase_access_token ::
  "string \<Rightarrow> json \<Rightarrow> keypair \<Rightarrow> reply \<Rightarrow> reply \<Rightarrow> (exn + string) \<times> event list" where
  "purchase_access_token server_url route_quote keypair instruction_reply purchase_reply =
     (let purchase_request =
            JObj [(''clientPublicKey'', JStr (public_key keypair)), (''routeQuote'', route_quote)];
          ev1 = [HttpPost (server_url @ ''/apicharge/nanosubscription/PurchaseInstruction'') []
                   purchase_request]
      in case fetch_json instruction_reply of
           Inl e \<Rightarrow> (Inl e, ev1)
         | Inr purchase_instruction \<Rightarrow>
             (case sign_authorisation keypair purchase_instruction of
                Inl e \<Rightarrow> (Inl e, ev1)
              | Inr (auth_bytes, signed_instruction) \<Rightarrow>
                  (let ev3 = ev1 @
                         [Sign (public_key keypair) auth_bytes,
                          HttpPost (server_url @ ''/apicharge/nanosubscription/Purchase'') []
                            signed_instruction]
                   in case fetch_json purchase_reply of
                        Inl e \<Rightarrow> (Inl e, ev3)
                      | Inr access_token \<Rightarrow>
                          (case sign_token keypair access_token of
                             Inl e \<Rightarrow> (Inl e, ev3)
                           | Inr (token_signed, final_token) \<Rightarrow>
                               (Inr (quote (json_dumps final_token)),
                                ev3 @ (case token_signed of
                                         None \<Rightarrow> []
                                       | Some sig_bytes \<Rightarrow>
                                           [Sign (public_key keypair) sig_bytes]))))))"

section \<open>ActivationOrchestrator: \<^verbatim>\<open>main\<close> of the full activation example\<close>

datatype outcome =
    RouteNotFound
  | Phase1Failed nat string
  | ActivatedWithoutTrustlines
  | FullyActivated
  | Phase2Failed nat string
  | NetworkError exn
  | OtherError exn

text \<open>The two handlers that close \<^verbatim>\<open>main\<close>: a \<^verbatim>\<open>RequestException\<close> is reported as a
  network error, every other exception as an error with its traceback.\<close>

definition handle_exn :: "exn \<Rightarrow> outcome" where
  "handle_exn e = (if is_request_exception e then NetworkError e else OtherError e)"

text \<open>\<^verbatim>\<open>ticket[:50]\<close>, inside the message that announces the ticket: a str and a list can
  be sliced, the other values cannot.\<close>

fun py_slice50 :: "json \<Rightarrow> exn + json" where
  "py_slice50 (JStr s) = Inr (JStr (take 50 s))"
| "py_slice50 (JArr xs) = Inr (JArr (take 50 xs))"
| "py_slice50 _ = Inl TypeError"

text \<open>\<^verbatim>\<open>activate_quote["signableEntity"]["microUnitPrice"] / 1_000_000\<close>: the price is
  only printed, but the expression raises on a missing member and on a price that is
  not a number.\<close>

definition price_check :: "json \<Rightarrow> exn + unit" where
  "price_check activate_quote =
     (case py_getitem activate_quote ''signableEntity'' of
        Inl e \<Rightarrow> Inl e
      | Inr signable \<Rightarrow>
          (case py_getitem signable ''microUnitPrice'' of
             Inl e \<Rightarrow> Inl e
           | Inr (JInt n) \<Rightarrow> Inr ()
           | Inr (JBool b) \<Rightarrow> Inr ()
           | Inr _ \<Rightarrow> Inl TypeError))"

definition activate_url :: "string \<Rightarrow> string" where
  "activate_url server = server @ ''/apicharge/stablecoin/activate-account''"

definition activate_headers :: "string \<Rightarrow> (string \<times> string) list" where
  "activate_headers token = [(''apicharge'', token), (''Content-Type'', ''application/json'')]"

text \<open>
  Phase 2, from the message that announces the ticket to the end of \<^verbatim>\<open>main\<close>:
  \<^verbatim>\<open>
  print(f"       Ticket received: {ticket[:50]}...")
  hash_bytes = bytes.fromhex(trustline_hash)
  raw_signature = new_account.sign(hash_bytes)
  raw_signature_base64 = base64.b64encode(raw_signature).decode('utf-8')
  response = requests.post(.../activate-account, headers=..., json={
      "publicKey": new_account.public_key, "ticket": ticket,
      "callerAccount": new_account.public_key, "rawSignature": raw_signature_base64})
  if response.ok: ... else: ...
  \<close>
\<close>

definition phase_2 ::
  "string \<Rightarrow> string \<Rightarrow> keypair \<Rightarrow> json \<Rightarrow> json \<Rightarrow> reply \<Rightarrow> outcome \<times> event list" where
  "phase_2 server token new_account ticket trustline_hash phase2_reply =
     (case py_slice50 ticket of
        Inl e \<Rightarrow> (handle_exn e, [])
      | Inr shown \<Rightarrow>
          (case bytes_fromhex trustline_hash of
             Inl e \<Rightarrow> (handle_exn e, [])
           | Inr hash_bytes \<Rightarrow>
               (let raw_signature = sign new_account hash_bytes;
                    raw_signature_base64 = b64encode raw_signature;
                    evs = [Sign (public_key new_account) hash_bytes,
                           HttpPost (activate_url server) (activate_headers token)
                             (JObj [(''publicKey'', JStr (public_key new_account)),
                                    (''ticket'', ticket),
                                    (''callerAccount'', JStr (public_key new_account)),
                                    (''rawSignature'', JStr raw_signature_base64)])]
                in case phase2_reply of
                     NoConnection \<Rightarrow> (NetworkError ConnectionError, evs)
                   | Status code body \<Rightarrow> (Phase2Failed code body, evs)
                   | OkJson j \<Rightarrow> (FullyActivated, evs)
                   | OkUndecodable \<Rightarrow> (FullyActivated, evs))))"

text \<open>
  Phase 1 and the test that decides on phase 2:
  \<^verbatim>\<open>
  response = requests.post(.../activate-account, headers=...,
                           json={"publicKey": new_account.public_key})
  if not response.ok: ... return
  phase1_result = response.json()
  print(... phase1_result.get('status', 'unknown') ...)
  ticket = phase1_result.get("ticket")
  trustline_xdr = phase1_result.get("trustlineTransactionXdr")
  trustline_hash = phase1_result.get("trustlineTransactionHash")
  if not ticket or not trustline_xdr:
      ... return
  \<close>
\<close>

definition activate ::
  "string \<Rightarrow> string \<Rightarrow> keypair \<Rightarrow> reply \<Rightarrow> reply \<Rightarrow> outcome \<times> event list" where
  "activate server token new_account phase1_reply phase2_reply =
     (let ev1 = [HttpPost (activate_url server) (activate_headers token)
                   (JObj [(''publicKey'', JStr (public_key new_account))])]
      in case phase1_reply of
           NoConnection \<Rightarrow> (NetworkError ConnectionError, ev1)
         | Status code body \<Rightarrow> (Phase1Failed code body, ev1)
         | OkUndecodable \<Rightarrow> (NetworkError JSONDecodeError, ev1)
         | OkJson phase1_result \<Rightarrow>
             (case py_get phase1_result ''status'' (JStr ''unknown'') of
                Inl e \<Rightarrow> (handle_exn e, ev1)
              | Inr status \<Rightarrow>
                  (case (py_get phase1_result ''ticket'' JNull,
                         py_get phase1_result ''trustlineTransactionXdr'' JNull,
                         py_get phase1_result ''trustlineTransactionHash'' JNull) of
                     (Inr ticket, Inr trustline_xdr, Inr trustline_hash) \<Rightarrow>
                       if \<not> py_truthy ticket \<or> \<not> py_truthy trustline_xdr
                       then (ActivatedWithoutTrustlines, ev1)
                       else (let (out, ev2) =
                                   phase_2 server token new_account ticket trustline_hash
                                     phase2_reply
                             in (out, ev1 @ ev2))
                   | _ \<Rightarrow> (OtherError AttributeError, ev1))))"

text \<open>\<^verbatim>\<open>main\<close>, from the fetch of the quotes on, against the server's replies to the five
  requests it can send.\<close>

definition main_full ::
  "string \<Rightarrow> keypair \<Rightarrow> keypair \<Rightarrow> reply \<Rightarrow> reply \<Rightarrow> reply \<Rightarrow> reply \<Rightarrow> reply
     \<Rightarrow> outcome \<times> event list" where
  "main_full server payer_keypair new_account quotes_reply instruction_reply purchase_reply
       phase1_reply phase2_reply =
     (let ev0 = [HttpGet (server @ ''/apicharge/quote'')]
      in case fetch_json quotes_reply of
           Inl e \<Rightarrow> (handle_exn e, ev0)
         | Inr quotes \<Rightarrow>
             (case find_quote_by_route_id quotes ''stablecoin-activate-account'' of
                Inl e \<Rightarrow> (handle_exn e, ev0)
              | Inr None \<Rightarrow> (RouteNotFound, ev0)
              | Inr (Some activate_quote) \<Rightarrow>
                  if \<not> py_truthy activate_quote then (RouteNotFound, ev0)
                  else
                    (case price_check activate_quote of
                       Inl e \<Rightarrow> (handle_exn e, ev0)
                     | Inr u \<Rightarrow>
                         (case purchase_access_token server activate_quote payer_keypair
                                 instruction_reply purchase_reply of
                            (Inl e, evp) \<Rightarrow> (handle_exn e, ev0 @ evp)
                          | (Inr token, evp) \<Rightarrow>
                              (let (out, eva) =
                                     activate server token new_account phase1_reply phase2_reply
                               in (out, ev0 @ evp @ eva))))))"

section \<open>TransactionSubmitter: the confirmation loop of the stablecoin example\<close>

datatype poll_outcome =
    Confirmed json
  | TransactionFailed json
  | StatusUnknown
  | PollAborted exn

text \<open>\<^verbatim>\<open>str.lower()\<close> on the code points below 256; a value that is not a str has no such
  method.\<close>

definition lower_char :: "char \<Rightarrow> char" where
  "lower_char c =
     (let n = (of_char c :: nat) in
      if (65 \<le> n \<and> n \<le> 90) \<or> (192 \<le> n \<and> n \<le> 222 \<and> n \<noteq> 215) then char_of (n + 32) else c)"

fun py_lower :: "json \<Rightarrow> exn + string" where
  "py_lower (JStr s) = Inr (map lower_char s)"
| "py_lower _ = Inl AttributeError"

definition status_url :: "string \<Rightarrow> string" where
  "status_url server = server @ ''/apicharge/stablecoin/get-transaction-status''"

text \<open>
  \<^verbatim>\<open>
  for attempt in range(20):
      time.sleep(2)
      status = check_transaction_status(server_url, status_token, tx_hash)
      status_str = status.get("status", "unknown")
      ledger = status.get("ledger", "pending")
      if status_str.lower() == "success": ... return
      if status_str.lower() == "failed": ... status.get('resultXdr', 'N/A') ... return
  print("WARNING: Transaction status unknown after 20 attempts")
  \<close>
  \<open>poll_loop remaining attempt\<close> is the loop with \<open>remaining\<close> iterations to go, the next
  one being iteration \<open>attempt\<close>; \<open>replies attempt\<close> is what the server answers to the
  status query of that iteration.
\<close>


text \<open>One iteration, after its sleep and its request: the outcome the loop returns with,
  or None when the loop goes on to the next iteration.\<close>

definition check_attempt :: "reply \<Rightarrow> poll_outcome option" where
  "check_attempt r =
     (case fetch_json r of
        Inl e \<Rightarrow> Some (PollAborted e)
      | Inr status \<Rightarrow>
          (case (py_get status ''status'' (JStr ''unknown''),
                 py_get status ''ledger'' (JStr ''pending''),
                 py_get status ''resultXdr'' (JStr ''N/A'')) of
             (Inr status_str, Inr ledger, Inr result_xdr) \<Rightarrow>
               (case py_lower status_str of
                  Inl e \<Rightarrow> Some (PollAborted e)
                | Inr lowered \<Rightarrow>
                    if lowered = ''success'' then Some (Confirmed ledger)
                    else if lowered = ''failed'' then Some (TransactionFailed result_xdr)
                    else None)
           | _ \<Rightarrow> Some (PollAborted AttributeError)))"

definition status_query :: "string \<Rightarrow> string \<Rightarrow> json \<Rightarrow> event" where
  "status_query server status_token tx_hash =
     HttpPost (status_url server) [(''apicharge'', status_token)]
       (JObj [(''transactionHash'', tx_hash)])"

fun poll_loop ::
  "nat \<Rightarrow> nat \<Rightarrow> string \<Rightarrow> string \<Rightarrow> json \<Rightarrow> (nat \<Rightarrow> reply) \<Rightarrow> poll_outcome \<times> event list" where
  "poll_loop 0 attempt server status_token tx_hash replies = (StatusUnknown, [])"
| "poll_loop (Suc remaining) attempt server status_token tx_hash replies =
     (let evs = [Sleep 2, status_query server status_token tx_hash]
      in case check_attempt (replies attempt) of
           Some out \<Rightarrow> (out, evs)
         | None \<Rightarrow>
             (let (out, later) =
                    poll_loop remaining (Suc attempt) server status_token tx_hash replies
              in (out, evs @ later)))"

definition wait_for_confirmation ::
  "string \<Rightarrow> string \<Rightarrow> json \<Rightarrow> (nat \<Rightarrow> reply) \<Rightarrow> poll_outcome \<times> event list" where
  "wait_for_confirmation server status_token tx_hash replies =
     poll_loop 20 0 server status_token tx_hash replies"

section \<open>Inputs the properties are stated on\<close>

text \<open>The catalog of the specification's scenario: one quote, for the activation route.\<close>

definition scenario_quote :: json where
  "scenario_quote =
     JObj [(''signableEntity'',
            JObj [(''routeId'', JStr ''x-stablecoin-activate-account-y''),
                  (''microUnitPrice'', JInt 50000)])]"

definition scenario_catalog :: json where
  "scenario_catalog = JObj [(''quotes'', JArr [scenario_quote])]"

text \<open>A string of lower-case hex digits, as a transaction hash is printed.\<close>

definition is_lower_hex :: "string \<Rightarrow> bool" where
  "is_lower_hex s = list_all (\<lambda>c. c \<in> set ''0123456789abcdef'') s"

text \<open>Keys, an instruction and tokens for closed runs of the purchase and of the activation.\<close>

definition demo_payer :: keypair where
  "demo_payer = \<lparr>public_key = ''GPAYER'', sign = (\<lambda>bs. rev bs)\<rparr>"

definition demo_new_account :: keypair where
  "demo_new_account = \<lparr>public_key = ''GNEW'', sign = (\<lambda>bs. bs @ bs)\<rparr>"

definition demo_instruction :: json where
  "demo_instruction = JObj [(''authorisationToSign'', JStr ''dead12'')]"

definition demo_token :: json where
  "demo_token = JObj [(''signableEntity'', JObj [(''signature'', JStr ''aGVsbG8='')]), (''expiry'', JInt 60)]"

definition demo_unsigned_token :: json where
  "demo_unsigned_token = JObj [(''signableEntity'', JObj [(''routeId'', JStr ''r'')]), (''expiry'', JInt 60)]"

text \<open>The trace of the first three steps of the purchase on \<open>demo_instruction\<close>.\<close>

definition demo_ev3 :: "event list" where
  "demo_ev3 =
     [HttpPost ''s/apicharge/nanosubscription/PurchaseInstruction'' []
        (JObj [(''clientPublicKey'', JStr ''GPAYER''), (''routeQuote'', scenario_quote)]),
      Sign ''GPAYER'' [222, 173, 18],
      HttpPost ''s/apicharge/nanosubscription/Purchase'' []
        (JObj [(''authorisationToSign'', JStr ''Eq3e'')])]"

text \<open>The status a status query came back with: the string under \<open>status\<close> of an ok
  response that is a dict (\<open>unknown\<close> when the member is missing); None when the request
  failed or the body has no such string. A status is terminal when it reads \<open>success\<close> or
  \<open>failed\<close>, letter case ignored as the loop ignores it.\<close>

fun returned_status :: "reply \<Rightarrow> string option" where
  "returned_status (OkJson (JObj kvs)) =
     (case map_of kvs ''status'' of
        None \<Rightarrow> Some ''unknown''
      | Some (JStr s) \<Rightarrow> Some s
      | Some _ \<Rightarrow> None)"
| "returned_status _ = None"

definition is_terminal :: "string \<Rightarrow> bool" where
  "is_terminal s = (map lower_char s = ''success'' \<or> map lower_char s = ''failed'')"

definition returned_nonterminal :: "reply \<Rightarrow> bool" where
  "returned_nonterminal r = (case returned_status r of Some s \<Rightarrow> \<not> is_terminal s | None \<Rightarrow> False)"

text \<open>The specification's scenario: \<open>pending\<close> nineteen times, then \<open>success\<close> with a ledger.\<close>

definition scenario_replies :: "nat \<Rightarrow> reply" where
  "scenario_replies i =
     (if i < 19 then OkJson (JObj [(''status'', JStr ''pending'')])
      else OkJson (JObj [(''status'', JStr ''success''), (''ledger'', JInt 12345)]))"

section \<open>Properties of the quote catalog\<close>

lemma str_contains_sublist: "str_contains sub s \<longleftrightarrow> sublist sub s"
  by (induction s) (auto simp: sublist_Cons_right)

lemma route_id_of_step:
  assumes "route_id_of q = Some r"
  shows "find_quote_loop (q # rest) sub =
           (if str_contains sub r then Inr (Some q) else find_quote_loop rest sub)"
  using assms
  by (cases q) (auto split: option.splits json.splits)

lemma find_quote_loop_find:
  assumes "\<forall>q \<in> set qs. route_id_of q \<noteq> None"
  shows "find_quote_loop qs sub = Inr (List.find (route_matches sub) qs)"
  using assms
proof (induction qs)
  case Nil
  show ?case by simp
next
  case (Cons q qs)
  from Cons.prems obtain r where r: "route_id_of q = Some r" by auto
  from Cons have IH: "find_quote_loop qs sub = Inr (List.find (route_matches sub) qs)" by simp
  have m: "route_matches sub q = str_contains sub r"
    by (simp add: route_matches_def r)
  show ?case
    by (simp only: route_id_of_step [OF r] IH) (simp add: m)
qed

text \<open>
  C8. On a catalog whose \<open>quotes\<close> member is a list of route quotes (each with a string
  \<open>routeId\<close> inside its \<open>signableEntity\<close>), \<open>find_quote_by_route_id\<close> returns the first quote,
  in the order of the list, whose route identifier contains the substring: the quote at
  some index \<open>i\<close> matches and none before it does. When no quote matches it returns None,
  as a value and not as an exception.
\<close>

theorem find_quote_first_match:
  assumes "py_get quotes ''quotes'' (JArr []) = Inr (JArr qs)"
    and "\<forall>q \<in> set qs. route_id_of q \<noteq> None"
  shows "find_quote_by_route_id quotes sub = Inr (List.find (route_matches sub) qs)
    \<and> (\<forall>q. find_quote_by_route_id quotes sub = Inr (Some q) \<longleftrightarrow>
          (\<exists>i < length qs. q = qs ! i \<and> route_matches sub (qs ! i)
             \<and> (\<forall>j < i. \<not> route_matches sub (qs ! j))))
    \<and> (find_quote_by_route_id quotes sub = Inr None \<longleftrightarrow>
          (\<forall>q \<in> set qs. \<not> route_matches sub q))"
proof -
  have eq: "find_quote_by_route_id quotes sub = Inr (List.find (route_matches sub) qs)"
    using assms by (simp add: find_quote_by_route_id_def find_quote_loop_find)
  show ?thesis
    unfolding eq by (auto simp: find_Some_iff find_None_iff)
qed

theorem find_quote_first_match_witness:
  "find_quote_by_route_id scenario_catalog ''stablecoin-activate-account''
     = Inr (Some scenario_quote)
   \<and> find_quote_by_route_id scenario_catalog ''rpc-passthrough'' = Inr None"
  using find_quote_first_match
      [of scenario_catalog "[scenario_quote]" "''stablecoin-activate-account''"]
    find_quote_first_match [of scenario_catalog "[scenario_quote]" "''rpc-passthrough''"]
  by (simp add: scenario_catalog_def scenario_quote_def route_matches_def)

section \<open>Properties of the encoding detection\<close>

lemma b64_value_hex:
  assumes "c \<in> set ''0123456789abcdef''"
  shows "c \<noteq> CHR ''='' \<and> (\<exists>v. b64_value c = Some v) \<and> is_ascii c"
  using assms by (auto simp: b64_value_def is_ascii_def)

text \<open>On characters of the alphabet alone the decoder only counts: it succeeds exactly
  when the characters fill whole groups of four.\<close>

lemma a2b_base64_alphabet:
  assumes "\<forall>c \<in> set s. c \<noteq> CHR ''='' \<and> (\<exists>v. b64_value c = Some v)" and "q < 4"
  shows "\<exists>bs. a2b_base64 q l p out s =
           (if (q + length s) mod 4 = 0 then Inr (out @ bs) else Inl BinasciiError)"
  using assms
proof (induction s arbitrary: q l p out)
  case Nil
  then show ?case by auto
next
  case (Cons c cs)
  from Cons.prems obtain v where v: "b64_value c = Some v" and ne: "c \<noteq> CHR ''=''" by auto
  have rest: "\<forall>c \<in> set cs. c \<noteq> CHR ''='' \<and> (\<exists>v. b64_value c = Some v)"
    using Cons.prems by simp
  from \<open>q < 4\<close> consider "q = 0" | "q = 1" | "q = 2" | "q = 3" by linarith
  then show ?case
  proof cases
    case 1
    from Cons.IH [OF rest, of 1 v 0 out] show ?thesis
      using 1 v ne by simp
  next
    case 2
    from Cons.IH [OF rest, of 2 "v AND 0x0f" 0 "out @ [push_bit 2 l OR drop_bit 4 v]"]
    show ?thesis using 2 v ne by auto
  next
    case 3
    from Cons.IH [OF rest, of 3 "v AND 0x03" 0 "out @ [push_bit 4 l OR drop_bit 2 v]"]
    show ?thesis using 3 v ne by auto
  next
    case 4
    from Cons.IH [OF rest, of 0 0 0 "out @ [push_bit 6 l OR v]"]
    show ?thesis using 4 v ne by (auto simp: mod_Suc)
  qed
qed

text \<open>
  C3. The detection step tries base64 first and falls back to hex: \<open>_is_base64\<close> holds
  exactly when \<open>base64.b64decode\<close> succeeds; whenever it succeeds the bytes that are signed
  are its result; whenever it fails the bytes are those of \<open>bytes.fromhex\<close> (which raises
  in its turn when the value is no hex string).
\<close>

theorem base64_first_then_hex:
  "(is_base64 a \<longleftrightarrow> (\<exists>bs. b64decode a = Inr bs))
    \<and> (\<forall>bs. b64decode a = Inr bs \<longrightarrow> decode_authorisation a = Inr bs)
    \<and> (\<forall>e. b64decode a = Inl e \<longrightarrow> decode_authorisation a = bytes_fromhex a)"
  by (auto simp: is_base64_def decode_authorisation_def split: sum.splits)

theorem base64_first_then_hex_witness:
  "b64decode (JStr ''aGVsbG8='') = Inr [104, 101, 108, 108, 111]
   \<and> decode_authorisation (JStr ''aGVsbG8='') = Inr [104, 101, 108, 108, 111]
   \<and> b64decode (JStr ''dead12'') = Inl BinasciiError
   \<and> bytes_fromhex (JStr ''dead12'') = Inr [222, 173, 18]
   \<and> decode_authorisation (JStr ''dead12'') = Inr [222, 173, 18]"
  using base64_first_then_hex [of "JStr ''aGVsbG8=''"] base64_first_then_hex [of "JStr ''dead12''"]
  by (simp add: is_ascii_def b64_value_def hex_value_def is_space_def)

text \<open>
  C4. A string of lower-case hex digits whose length is a multiple of 4 (a 64-character
  transaction hash, for one) passes \<open>_is_base64\<close>, so the detection step decodes it as
  base64 and never as hex.
\<close>

theorem hex_digits_taken_as_base64:
  assumes "is_lower_hex s" and "length s mod 4 = 0"
  shows "is_base64 (JStr s)
    \<and> (\<exists>bs. b64decode (JStr s) = Inr bs \<and> decode_authorisation (JStr s) = Inr bs)"
proof -
  have hex: "\<forall>c \<in> set s. c \<in> set ''0123456789abcdef''"
    using assms(1) by (simp add: is_lower_hex_def list_all_iff)
  have ascii: "list_all is_ascii s"
    using hex b64_value_hex by (auto simp: list_all_iff)
  have alpha: "\<forall>c \<in> set s. c \<noteq> CHR ''='' \<and> (\<exists>v. b64_value c = Some v)"
    using hex b64_value_hex by blast
  from a2b_base64_alphabet [OF alpha, of 0 0 0 "[]"] assms(2)
  obtain bs where "a2b_base64 0 0 0 [] s = Inr bs" by auto
  with ascii have dec: "b64decode (JStr s) = Inr bs" by simp
  then show ?thesis by (simp add: is_base64_def decode_authorisation_def)
qed

theorem hex_digits_taken_as_base64_witness:
  "is_lower_hex ''deadbeef'' \<and> length ''deadbeef'' mod 4 = 0
   \<and> is_base64 (JStr ''deadbeef'')
   \<and> decode_authorisation (JStr ''deadbeef'') = Inr [117, 230, 157, 109, 231, 159]
   \<and> bytes_fromhex (JStr ''deadbeef'') = Inr [222, 173, 190, 239]"
  using hex_digits_taken_as_base64 [of "''deadbeef''"]
  by (simp add: is_lower_hex_def is_base64_def decode_authorisation_def is_ascii_def
      b64_value_def hex_value_def is_space_def)

section \<open>Properties of the purchase\<close>

lemma dict_set_absent: "map_of kvs k = None \<Longrightarrow> dict_set kvs k v = kvs @ [(k, v)]"
  by (induction kvs) (auto split: if_splits)

lemma map_of_dict_set: "map_of (dict_set kvs k v) = (map_of kvs)(k \<mapsto> v)"
  by (induction kvs) (auto simp: fun_eq_iff)

lemma filter_dict_set:
  "filter (\<lambda>kv. fst kv \<noteq> k) (dict_set kvs k v) = filter (\<lambda>kv. fst kv \<noteq> k) kvs"
  by (induction kvs) auto

lemma sign_authorisation_dict:
  "sign_authorisation kp (JObj kvs) =
     (case decode_authorisation (case map_of kvs ''authorisationToSign'' of None \<Rightarrow> JStr [] | Some v \<Rightarrow> v) of
        Inl e \<Rightarrow> Inl e
      | Inr bs \<Rightarrow> Inr (bs, JObj (dict_set kvs ''authorisationToSign'' (JStr (b64encode (sign kp bs))))))"
  by (simp add: sign_authorisation_def split: sum.splits)

lemma decode_empty: "decode_authorisation (JStr []) = Inr []"
  by (simp add: decode_authorisation_def is_base64_def)

lemma sign_token_dict:
  assumes "py_get (JObj kvs) ''signableEntity'' (JObj []) = Inr (JObj se)"
  shows "sign_token kp (JObj kvs) =
     (let signature_to_sign = (case map_of se ''signature'' of None \<Rightarrow> JStr [] | Some v \<Rightarrow> v) in
      if py_truthy signature_to_sign then
        (case b64decode signature_to_sign of
           Inl e \<Rightarrow> Inl e
         | Inr bs \<Rightarrow>
             Inr (Some bs, JObj (dict_set kvs ''signature'' (JStr (b64encode (sign kp bs))))))
      else Inr (None, JObj kvs))"
  using assms by (simp add: sign_token_def split: sum.splits)

lemma demo_step2:
  "sign_authorisation demo_payer demo_instruction =
     Inr ([222, 173, 18], JObj [(''authorisationToSign'', JStr ''Eq3e'')])"
  by (simp add: sign_authorisation_def decode_authorisation_def is_base64_def demo_payer_def
      demo_instruction_def is_ascii_def b64_value_def hex_value_def is_space_def
      b64_char_def b64_alphabet_def)

lemma demo_b64: "b64decode (JStr ''aGVsbG8='') = Inr [104, 101, 108, 108, 111]"
  by (simp add: is_ascii_def b64_value_def)

lemma demo_sig: "b64encode (sign demo_payer [104, 101, 108, 108, 111]) = ''b2xsZWg=''"
  by (simp add: demo_payer_def b64_char_def b64_alphabet_def)

lemma demo_purchase_run:
  "purchase_access_token ''s'' scenario_quote demo_payer (OkJson demo_instruction)
       (OkJson demo_token) =
     (Inr (quote (json_dumps
        (JObj [(''signableEntity'', JObj [(''signature'', JStr ''aGVsbG8='')]),
               (''expiry'', JInt 60), (''signature'', JStr ''b2xsZWg='')]))),
      demo_ev3 @ [Sign ''GPAYER'' [104, 101, 108, 108, 111]])"
proof -
  have pk: "public_key demo_payer = ''GPAYER''" by (simp add: demo_payer_def)
  have tok: "sign_token demo_payer demo_token =
      Inr (Some [104, 101, 108, 108, 111],
           JObj [(''signableEntity'', JObj [(''signature'', JStr ''aGVsbG8='')]),
                 (''expiry'', JInt 60), (''signature'', JStr ''b2xsZWg='')])"
    using demo_b64 demo_sig by (simp add: sign_token_def demo_token_def)
  show ?thesis
    by (simp add: purchase_access_token_def demo_step2 tok pk demo_ev3_def)
qed

text \<open>
  C2, as the code has it. The claim fails: when \<open>authorisationToSign\<close> is absent the purchase
  takes the empty string in its place, the empty string passes \<open>_is_base64\<close>, and the payer's
  key signs the empty byte string; the purchase then goes on to step 3.
\<close>

theorem missing_authorisation_counterexample:
  "purchase_access_token ''s'' scenario_quote demo_payer (OkJson (JObj [(''nonce'', JInt 7)])) NoConnection =
     (Inl ConnectionError,
      [HttpPost ''s/apicharge/nanosubscription/PurchaseInstruction'' []
         (JObj [(''clientPublicKey'', JStr ''GPAYER''), (''routeQuote'', scenario_quote)]),
       Sign ''GPAYER'' [],
       HttpPost ''s/apicharge/nanosubscription/Purchase'' []
         (JObj [(''nonce'', JInt 7), (''authorisationToSign'', JStr [])])])"
  by (simp add: purchase_access_token_def sign_authorisation_def decode_authorisation_def is_base64_def demo_payer_def)

text \<open>
  C2, amended. When \<open>authorisationToSign\<close> is absent from the purchase instruction, the signer
  is invoked on the empty byte string and the signed instruction is posted. The purchase
  is aborted at step 2, before any signing and with no further request, exactly when the
  value of the field is rejected both by \<open>base64.b64decode\<close> and by \<open>bytes.fromhex\<close>.
\<close>

theorem authorisation_fail_fast_amended:
  "(map_of kvs ''authorisationToSign'' = None \<longrightarrow>
      (\<exists>res later. purchase_access_token server rq kp (OkJson (JObj kvs)) r3 =
         (res,
          [HttpPost (server @ ''/apicharge/nanosubscription/PurchaseInstruction'') []
             (JObj [(''clientPublicKey'', JStr (public_key kp)), (''routeQuote'', rq)]),
           Sign (public_key kp) [],
           HttpPost (server @ ''/apicharge/nanosubscription/Purchase'') []
             (JObj (kvs @ [(''authorisationToSign'', JStr (b64encode (sign kp [])))]))] @ later)))
   \<and> (\<forall>v. py_get (JObj kvs) ''authorisationToSign'' (JStr []) = Inr v \<longrightarrow>
        ((\<exists>e. purchase_access_token server rq kp (OkJson (JObj kvs)) r3 =
            (Inl e, [HttpPost (server @ ''/apicharge/nanosubscription/PurchaseInstruction'') []
                       (JObj [(''clientPublicKey'', JStr (public_key kp)), (''routeQuote'', rq)])]))
         \<longleftrightarrow> (\<not> is_base64 v \<and> (\<exists>e. bytes_fromhex v = Inl e))))"
proof (intro conjI impI allI)
  assume a: "map_of kvs ''authorisationToSign'' = None"
  show "\<exists>res later. purchase_access_token server rq kp (OkJson (JObj kvs)) r3 =
         (res,
          [HttpPost (server @ ''/apicharge/nanosubscription/PurchaseInstruction'') []
             (JObj [(''clientPublicKey'', JStr (public_key kp)), (''routeQuote'', rq)]),
           Sign (public_key kp) [],
           HttpPost (server @ ''/apicharge/nanosubscription/Purchase'') []
             (JObj (kvs @ [(''authorisationToSign'', JStr (b64encode (sign kp [])))]))] @ later)"
    by (auto simp add: purchase_access_token_def sign_authorisation_dict a decode_empty
        dict_set_absent Let_def split: sum.splits prod.splits option.splits)
next
  fix v
  assume v: "py_get (JObj kvs) ''authorisationToSign'' (JStr []) = Inr v"
  then have v': "(case map_of kvs ''authorisationToSign'' of None \<Rightarrow> JStr [] | Some v \<Rightarrow> v) = v"
    by simp
  show "(\<exists>e. purchase_access_token server rq kp (OkJson (JObj kvs)) r3 =
            (Inl e, [HttpPost (server @ ''/apicharge/nanosubscription/PurchaseInstruction'') []
                       (JObj [(''clientPublicKey'', JStr (public_key kp)), (''routeQuote'', rq)])]))
         \<longleftrightarrow> (\<not> is_base64 v \<and> (\<exists>e. bytes_fromhex v = Inl e))"
    by (auto simp add: purchase_access_token_def sign_authorisation_dict v' decode_authorisation_def
        is_base64_def Let_def split: sum.splits prod.splits option.splits)
qed

theorem authorisation_fail_fast_amended_witness:
  "map_of [(''nonce'', JInt 7)] ''authorisationToSign'' = None
   \<and> snd (purchase_access_token ''s'' scenario_quote demo_payer (OkJson (JObj [(''nonce'', JInt 7)])) NoConnection) =
      [HttpPost ''s/apicharge/nanosubscription/PurchaseInstruction'' []
         (JObj [(''clientPublicKey'', JStr ''GPAYER''), (''routeQuote'', scenario_quote)]),
       Sign ''GPAYER'' [],
       HttpPost ''s/apicharge/nanosubscription/Purchase'' []
         (JObj [(''nonce'', JInt 7), (''authorisationToSign'', JStr [])])]
   \<and> \<not> is_base64 (JStr ''xyz'') \<and> bytes_fromhex (JStr ''xyz'') = Inl ValueError
   \<and> purchase_access_token ''s'' scenario_quote demo_payer
         (OkJson (JObj [(''authorisationToSign'', JStr ''xyz'')])) NoConnection =
       (Inl ValueError,
        [HttpPost ''s/apicharge/nanosubscription/PurchaseInstruction'' []
           (JObj [(''clientPublicKey'', JStr ''GPAYER''), (''routeQuote'', scenario_quote)])])"
  using authorisation_fail_fast_amended
      [of "[(''nonce'', JInt 7)]" "''s''" scenario_quote demo_payer NoConnection]
    authorisation_fail_fast_amended
      [of "[(''authorisationToSign'', JStr ''xyz'')]" "''s''" scenario_quote demo_payer NoConnection]
  by (simp add: purchase_access_token_def sign_authorisation_def decode_authorisation_def
      is_base64_def demo_payer_def is_ascii_def b64_value_def hex_value_def is_space_def)

text \<open>
  C7. Once steps 1 to 3 have succeeded and the token is a dict whose \<open>signableEntity\<close> is a
  dict: a non-empty string under \<open>signableEntity.signature\<close> is base64-decoded, the payer's
  key signs the decoded bytes, and the base64 text of the result is stored under the
  token's top-level \<open>signature\<close> before the token is serialised (the purchase is aborted
  when the string does not decode); when the member is absent or empty nothing is signed
  and the token is serialised as the server sent it.
\<close>

theorem step4_signs_token:
  assumes "fetch_json instruction_reply = Inr purchase_instruction"
    and "sign_authorisation kp purchase_instruction = Inr (auth_bytes, signed_instruction)"
    and "purchase_reply = OkJson (JObj kvs)"
    and "py_get (JObj kvs) ''signableEntity'' (JObj []) = Inr (JObj se)"
    and "ev3 = [HttpPost (server @ ''/apicharge/nanosubscription/PurchaseInstruction'') []
                  (JObj [(''clientPublicKey'', JStr (public_key kp)), (''routeQuote'', rq)]),
                Sign (public_key kp) auth_bytes,
                HttpPost (server @ ''/apicharge/nanosubscription/Purchase'') [] signed_instruction]"
  shows "(\<forall>s bs. map_of se ''signature'' = Some (JStr s) \<and> s \<noteq> [] \<and> b64decode (JStr s) = Inr bs \<longrightarrow>
            purchase_access_token server rq kp instruction_reply purchase_reply =
              (Inr (quote (json_dumps
                 (JObj (dict_set kvs ''signature'' (JStr (b64encode (sign kp bs))))))),
               ev3 @ [Sign (public_key kp) bs]))
       \<and> (\<forall>s e. map_of se ''signature'' = Some (JStr s) \<and> s \<noteq> [] \<and> b64decode (JStr s) = Inl e \<longrightarrow>
            purchase_access_token server rq kp instruction_reply purchase_reply = (Inl e, ev3))
       \<and> (map_of se ''signature'' = None \<or> map_of se ''signature'' = Some (JStr []) \<longrightarrow>
            purchase_access_token server rq kp instruction_reply purchase_reply =
              (Inr (quote (json_dumps (JObj kvs))), ev3))"
  using assms(1,2,3,5)
  by (auto simp add: purchase_access_token_def sign_token_dict [OF assms(4)] Let_def)

theorem step4_signs_token_witness:
  "purchase_access_token ''s'' scenario_quote demo_payer (OkJson demo_instruction)
       (OkJson demo_token) =
     (Inr (quote (json_dumps
        (JObj [(''signableEntity'', JObj [(''signature'', JStr ''aGVsbG8='')]),
               (''expiry'', JInt 60), (''signature'', JStr ''b2xsZWg='')]))),
      demo_ev3 @ [Sign ''GPAYER'' [104, 101, 108, 108, 111]])
   \<and> purchase_access_token ''s'' scenario_quote demo_payer (OkJson demo_instruction)
       (OkJson demo_unsigned_token) =
     (Inr (quote (json_dumps demo_unsigned_token)), demo_ev3)"
proof -
  have pk: "public_key demo_payer = ''GPAYER''" by (simp add: demo_payer_def)
  have ev: "demo_ev3 = [HttpPost (''s'' @ ''/apicharge/nanosubscription/PurchaseInstruction'') []
                  (JObj [(''clientPublicKey'', JStr (public_key demo_payer)), (''routeQuote'', scenario_quote)]),
                Sign (public_key demo_payer) [222, 173, 18],
                HttpPost (''s'' @ ''/apicharge/nanosubscription/Purchase'') []
                  (JObj [(''authorisationToSign'', JStr ''Eq3e'')])]"
    by (simp add: demo_ev3_def pk)
  have a: "fetch_json (OkJson demo_instruction) = Inr demo_instruction" by simp
  note signed = step4_signs_token [OF a demo_step2, of "OkJson demo_token"
      "[(''signableEntity'', JObj [(''signature'', JStr ''aGVsbG8='')]), (''expiry'', JInt 60)]"
      "[(''signature'', JStr ''aGVsbG8='')]" demo_ev3 "''s''" scenario_quote]
  note unsigned = step4_signs_token [OF a demo_step2, of "OkJson demo_unsigned_token"
      "[(''signableEntity'', JObj [(''routeId'', JStr ''r'')]), (''expiry'', JInt 60)]"
      "[(''routeId'', JStr ''r'')]" demo_ev3 "''s''" scenario_quote]
  have 1: "purchase_access_token ''s'' scenario_quote demo_payer (OkJson demo_instruction)
       (OkJson demo_token) =
     (Inr (quote (json_dumps
        (JObj [(''signableEntity'', JObj [(''signature'', JStr ''aGVsbG8='')]),
               (''expiry'', JInt 60), (''signature'', JStr ''b2xsZWg='')]))),
      demo_ev3 @ [Sign ''GPAYER'' [104, 101, 108, 108, 111]])"
    using signed ev demo_b64 demo_sig by (simp add: demo_token_def pk)
  have 2: "purchase_access_token ''s'' scenario_quote demo_payer (OkJson demo_instruction)
       (OkJson demo_unsigned_token) =
     (Inr (quote (json_dumps demo_unsigned_token)), demo_ev3)"
    using unsigned ev by (simp add: demo_unsigned_token_def)
  from 1 2 show ?thesis by simp
qed

text \<open>
  C10. Whenever the purchase returns a credential, the credential is the serialisation of
  a dict that differs from the token the server returned at most under the top-level key
  \<open>signature\<close>: every other key has the value it had, in the order it had, and so has
  \<open>signableEntity\<close> with the nested \<open>signature\<close> whose bytes were signed.
\<close>

theorem token_changed_only_at_signature:
  assumes "purchase_reply = OkJson access_token"
    and "purchase_access_token server rq kp instruction_reply purchase_reply = (Inr credential, evs)"
  shows "\<exists>kvs kvs'. access_token = JObj kvs
      \<and> credential = quote (json_dumps (JObj kvs'))
      \<and> (\<forall>k. k \<noteq> ''signature'' \<longrightarrow> map_of kvs' k = map_of kvs k)
      \<and> filter (\<lambda>kv. fst kv \<noteq> ''signature'') kvs' = filter (\<lambda>kv. fst kv \<noteq> ''signature'') kvs
      \<and> map_of kvs' ''signableEntity'' = map_of kvs ''signableEntity''"
proof -
  from assms obtain sb final where st: "sign_token kp access_token = Inr (sb, final)"
    and cred: "credential = quote (json_dumps final)"
    by (auto simp: purchase_access_token_def Let_def split: sum.splits prod.splits)
  from st obtain kvs where tok: "access_token = JObj kvs"
    by (cases access_token) (auto simp: sign_token_def)
  from st tok have "final = JObj kvs \<or> (\<exists>v. final = JObj (dict_set kvs ''signature'' v))"
    by (auto simp: sign_token_def split: sum.splits if_splits)
  then show ?thesis
  proof
    assume "final = JObj kvs"
    with tok cred show ?thesis by auto
  next
    assume "\<exists>v. final = JObj (dict_set kvs ''signature'' v)"
    then obtain v where "final = JObj (dict_set kvs ''signature'' v)" ..
    with tok cred show ?thesis
      by (intro exI [of _ kvs] exI [of _ "dict_set kvs ''signature'' v"])
        (simp add: map_of_dict_set filter_dict_set)
  qed
qed

theorem token_changed_only_at_signature_witness:
  "\<exists>kvs'. fst (purchase_access_token ''s'' scenario_quote demo_payer (OkJson demo_instruction)
               (OkJson demo_token)) = Inr (quote (json_dumps (JObj kvs')))
     \<and> map_of kvs' ''signableEntity'' = Some (JObj [(''signature'', JStr ''aGVsbG8='')])
     \<and> map_of kvs' ''expiry'' = Some (JInt 60)
     \<and> filter (\<lambda>kv. fst kv \<noteq> ''signature'') kvs' =
         [(''signableEntity'', JObj [(''signature'', JStr ''aGVsbG8='')]), (''expiry'', JInt 60)]"
proof -
  obtain credential evs where run:
    "purchase_access_token ''s'' scenario_quote demo_payer (OkJson demo_instruction)
       (OkJson demo_token) = (Inr credential, evs)"
    using demo_purchase_run by blast
  from token_changed_only_at_signature [OF refl run]
  obtain kvs kvs' where "demo_token = JObj kvs"
    and "credential = quote (json_dumps (JObj kvs'))"
    and "\<forall>k. k \<noteq> ''signature'' \<longrightarrow> map_of kvs' k = map_of kvs k"
    and "filter (\<lambda>kv. fst kv \<noteq> ''signature'') kvs' = filter (\<lambda>kv. fst kv \<noteq> ''signature'') kvs"
    by blast
  then show ?thesis
    using run by (intro exI [of _ kvs']) (auto simp: demo_token_def)
qed

section \<open>Properties of the activation\<close>

lemma activate_dict:
  "activate server token new_account (OkJson (JObj kvs)) phase2_reply =
     (let ticket = (case map_of kvs ''ticket'' of None \<Rightarrow> JNull | Some v \<Rightarrow> v);
          xdr = (case map_of kvs ''trustlineTransactionXdr'' of None \<Rightarrow> JNull | Some v \<Rightarrow> v);
          h = (case map_of kvs ''trustlineTransactionHash'' of None \<Rightarrow> JNull | Some v \<Rightarrow> v);
          ev1 = [HttpPost (activate_url server) (activate_headers token)
                   (JObj [(''publicKey'', JStr (public_key new_account))])]
      in if \<not> py_truthy ticket \<or> \<not> py_truthy xdr then (ActivatedWithoutTrustlines, ev1)
         else (fst (phase_2 server token new_account ticket h phase2_reply),
               ev1 @ snd (phase_2 server token new_account ticket h phase2_reply)))"
  by (simp add: activate_def Let_def split: prod.splits)

lemma phase_2_signs:
  assumes "Sign k b \<in> set (snd (phase_2 server token new_account ticket h phase2_reply))"
  shows "k = public_key new_account \<and> bytes_fromhex h = Inr b"
  using assms
  by (auto simp: phase_2_def Let_def split: sum.splits reply.splits)

text \<open>
  C1, on the code. A phase-1 response with a ticket and a trustline transaction but
  without \<open>trustlineTransactionHash\<close> passes the test that guards phase 2 (the test looks
  at the ticket and the transaction only); phase 2 starts, \<open>bytes.fromhex(None)\<close> raises
  TypeError, and the run ends in the handler for unexpected errors, not as an activation
  without trustlines. No phase-2 request is sent.
\<close>

theorem phase2_entered_without_hash:
  "activate ''s'' ''tok'' demo_new_account
     (OkJson (JObj [(''status'', JStr ''ok''), (''ticket'', JStr ''T1''),
                    (''trustlineTransactionXdr'', JStr ''AAAA'')]))
     (OkJson JNull) =
   (OtherError TypeError,
    [HttpPost ''s/apicharge/stablecoin/activate-account''
       [(''apicharge'', ''tok''), (''Content-Type'', ''application/json'')]
       (JObj [(''publicKey'', JStr ''GNEW'')])])"
  by (simp add: activate_def phase_2_def activate_url_def activate_headers_def demo_new_account_def
      handle_exn_def)

theorem phase2_entered_without_hash_witness:
  "fst (activate ''s'' ''tok'' demo_new_account
     (OkJson (JObj [(''status'', JStr ''ok''), (''ticket'', JStr ''T1''),
                    (''trustlineTransactionXdr'', JStr ''AAAA'')]))
     (OkJson JNull)) \<noteq> ActivatedWithoutTrustlines
   \<and> length (snd (activate ''s'' ''tok'' demo_new_account
     (OkJson (JObj [(''status'', JStr ''ok''), (''ticket'', JStr ''T1''),
                    (''trustlineTransactionXdr'', JStr ''AAAA'')]))
     (OkJson JNull))) = 1"
  using phase2_entered_without_hash by simp

text \<open>
  C9. When phase 1 returns a ticket, a trustline transaction and a trustline hash that
  is a hex string, phase 2 has the new account's key sign the hex decoding of
  \<open>trustlineTransactionHash\<close>, nothing else is signed, and the body of the resubmission
  carries the base64 text of that signature under \<open>rawSignature\<close>.
\<close>

theorem phase2_signs_hash_with_new_account:
  assumes "phase1_reply = OkJson (JObj kvs)"
    and "map_of kvs ''ticket'' = Some ticket" and "py_truthy ticket"
    and "py_slice50 ticket = Inr shown"
    and "map_of kvs ''trustlineTransactionXdr'' = Some xdr" and "py_truthy xdr"
    and "map_of kvs ''trustlineTransactionHash'' = Some h"
    and "bytes_fromhex h = Inr hash_bytes"
  shows "snd (activate server token new_account phase1_reply phase2_reply) =
     [HttpPost (activate_url server) (activate_headers token)
        (JObj [(''publicKey'', JStr (public_key new_account))]),
      Sign (public_key new_account) hash_bytes,
      HttpPost (activate_url server) (activate_headers token)
        (JObj [(''publicKey'', JStr (public_key new_account)),
               (''ticket'', ticket),
               (''callerAccount'', JStr (public_key new_account)),
               (''rawSignature'', JStr (b64encode (sign new_account hash_bytes)))])]"
  using assms
  by (simp add: activate_dict phase_2_def Let_def split: reply.splits)

theorem phase2_signs_hash_with_new_account_witness:
  "snd (activate ''s'' ''tok'' demo_new_account
     (OkJson (JObj [(''status'', JStr ''ok''), (''ticket'', JStr ''T1''),
                    (''trustlineTransactionXdr'', JStr ''AAAA''),
                    (''trustlineTransactionHash'', JStr ''dead12'')]))
     (OkJson JNull)) =
   [HttpPost ''s/apicharge/stablecoin/activate-account''
      [(''apicharge'', ''tok''), (''Content-Type'', ''application/json'')]
      (JObj [(''publicKey'', JStr ''GNEW'')]),
    Sign ''GNEW'' [222, 173, 18],
    HttpPost ''s/apicharge/stablecoin/activate-account''
      [(''apicharge'', ''tok''), (''Content-Type'', ''application/json'')]
      (JObj [(''publicKey'', JStr ''GNEW''), (''ticket'', JStr ''T1''),
             (''callerAccount'', JStr ''GNEW''),
             (''rawSignature'', JStr (b64encode [222, 173, 18, 222, 173, 18]))])]"
proof -
  have h: "bytes_fromhex (JStr ''dead12'') = Inr [222, 173, 18]"
    by (simp add: is_ascii_def hex_value_def is_space_def)
  show ?thesis
    using phase2_signs_hash_with_new_account
      [of _ "[(''status'', JStr ''ok''), (''ticket'', JStr ''T1''),
              (''trustlineTransactionXdr'', JStr ''AAAA''),
              (''trustlineTransactionHash'', JStr ''dead12'')]"
          "JStr ''T1''" "JStr ''T1''" "JStr ''AAAA''" "JStr ''dead12''" "[222, 173, 18]"
          "''s''" "''tok''" demo_new_account "OkJson JNull", OF refl] h
    by (simp add: demo_new_account_def activate_url_def activate_headers_def)
qed

section \<open>Properties of the confirmation loop\<close>

lemma check_attempt_None: "check_attempt r = None \<longleftrightarrow> returned_nonterminal r"
  by (cases r rule: returned_status.cases)
    (auto simp: check_attempt_def returned_nonterminal_def is_terminal_def
      split: option.splits json.splits sum.splits)

lemma check_attempt_not_unknown: "check_attempt r \<noteq> Some StatusUnknown"
  by (auto simp: check_attempt_def split: sum.splits prod.splits if_splits)

lemma check_attempt_terminal:
  assumes "returned_status r = Some s"
  shows "(map lower_char s = ''success'' \<longrightarrow>
            (\<exists>kvs. r = OkJson (JObj kvs) \<and>
               check_attempt r = Some (Confirmed (case map_of kvs ''ledger'' of
                                                     None \<Rightarrow> JStr ''pending'' | Some l \<Rightarrow> l))))
       \<and> (map lower_char s = ''failed'' \<longrightarrow>
            (\<exists>kvs. r = OkJson (JObj kvs) \<and>
               check_attempt r = Some (TransactionFailed (case map_of kvs ''resultXdr'' of
                                                     None \<Rightarrow> JStr ''N/A'' | Some x \<Rightarrow> x))))"
  using assms
  by (cases r rule: returned_status.cases)
    (auto simp: check_attempt_def split: option.splits json.splits)

lemma poll_loop_continue:
  assumes "check_attempt (replies a) = None"
  shows "poll_loop (Suc r) a server tok h replies =
     (fst (poll_loop r (Suc a) server tok h replies),
      [Sleep 2, status_query server tok h] @ snd (poll_loop r (Suc a) server tok h replies))"
  using assms by (simp add: Let_def case_prod_beta)

lemma poll_loop_stop:
  assumes "check_attempt (replies a) = Some out"
  shows "poll_loop (Suc r) a server tok h replies = (out, [Sleep 2, status_query server tok h])"
  using assms by (simp add: Let_def)

lemma poll_loop_runs:
  "\<exists>n \<le> r. snd (poll_loop r a server tok h replies) =
               concat (replicate n [Sleep 2, status_query server tok h])
     \<and> (\<forall>i. Suc i < n \<longrightarrow> check_attempt (replies (a + i)) = None)
     \<and> (if \<forall>i < r. check_attempt (replies (a + i)) = None
        then n = r \<and> fst (poll_loop r a server tok h replies) = StatusUnknown
        else 0 < n \<and> check_attempt (replies (a + (n - 1)))
                       = Some (fst (poll_loop r a server tok h replies)))"
proof (induction r arbitrary: a)
  case 0
  show ?case by simp
next
  case (Suc r)
  show ?case
  proof (cases "check_attempt (replies a)")
    case (Some out)
    then show ?thesis
      by (intro exI [of _ 1]) (auto simp: poll_loop_stop)
  next
    case None
    note step = poll_loop_continue [of replies a, OF None]
    from Suc.IH [of "Suc a"] obtain n where n: "n \<le> r"
      and tr: "snd (poll_loop r (Suc a) server tok h replies) =
                 concat (replicate n [Sleep 2, status_query server tok h])"
      and cont: "\<forall>i. Suc i < n \<longrightarrow> check_attempt (replies (Suc a + i)) = None"
      and fin: "if \<forall>i < r. check_attempt (replies (Suc a + i)) = None
        then n = r \<and> fst (poll_loop r (Suc a) server tok h replies) = StatusUnknown
        else 0 < n \<and> check_attempt (replies (Suc a + (n - 1)))
                       = Some (fst (poll_loop r (Suc a) server tok h replies))"
      by blast
    have all_iff: "(\<forall>i < Suc r. check_attempt (replies (a + i)) = None)
        \<longleftrightarrow> (\<forall>i < r. check_attempt (replies (Suc a + i)) = None)"
      using None by (auto simp: less_Suc_eq_0_disj)
    have c2: "\<forall>i. Suc i < Suc n \<longrightarrow> check_attempt (replies (a + i)) = None"
    proof (intro allI impI)
      fix i assume "Suc i < Suc n"
      show "check_attempt (replies (a + i)) = None"
      proof (cases i)
        case 0 then show ?thesis using None by simp
      next
        case (Suc j)
        with \<open>Suc i < Suc n\<close> cont show ?thesis by simp
      qed
    qed
    show ?thesis
    proof (intro exI [of _ "Suc n"] conjI)
      show "Suc n \<le> Suc r" using n by simp
      show "snd (poll_loop (Suc r) a server tok h replies) =
              concat (replicate (Suc n) [Sleep 2, status_query server tok h])"
        using tr by (simp add: step del: poll_loop.simps)
      show "\<forall>i. Suc i < Suc n \<longrightarrow> check_attempt (replies (a + i)) = None" by (rule c2)
      show "if \<forall>i < Suc r. check_attempt (replies (a + i)) = None
        then Suc n = Suc r \<and> fst (poll_loop (Suc r) a server tok h replies) = StatusUnknown
        else 0 < Suc n \<and> check_attempt (replies (a + (Suc n - 1)))
                       = Some (fst (poll_loop (Suc r) a server tok h replies))"
      proof (cases "\<forall>i < r. check_attempt (replies (Suc a + i)) = None")
        case True
        have fin': "n = r \<and> fst (poll_loop r (Suc a) server tok h replies) = StatusUnknown"
          using fin unfolding if_P [OF True] .
        have pos: "\<forall>i < Suc r. check_attempt (replies (a + i)) = None"
          using True all_iff by simp
        show ?thesis
          unfolding if_P [OF pos] using fin' by (simp add: step del: poll_loop.simps)
      next
        case False
        have fin': "0 < n \<and> check_attempt (replies (Suc a + (n - 1)))
                       = Some (fst (poll_loop r (Suc a) server tok h replies))"
          using fin unfolding if_not_P [OF False] .
        have idx: "a + (Suc n - 1) = a + n" by simp
        have idx': "Suc a + (n - 1) = a + n" using fin' by simp
        note fin'' = fin' [unfolded idx']
        have neg: "\<not> (\<forall>i < Suc r. check_attempt (replies (a + i)) = None)"
          using False all_iff by simp
        show ?thesis
          unfolding if_not_P [OF neg] idx using fin'' by (simp add: step del: poll_loop.simps)
      qed
    qed
  qed
qed

lemma lower_pending: "map lower_char ''pending'' = ''pending''"
  by (simp add: lower_char_def)

lemma scenario_pending: "i < 19 \<Longrightarrow> returned_nonterminal (scenario_replies i)"
  unfolding returned_nonterminal_def is_terminal_def
  by (simp add: scenario_replies_def lower_pending del: list.map)


text \<open>
  C5. The confirmation loop sends at most 20 status queries, each right after a sleep of
  2 seconds; it goes on to a further query only after a reply with a status that is not
  terminal, so it stops at the first reply whose status is \<open>success\<close> or \<open>failed\<close> and
  returns that outcome; it ends with the status unknown exactly when each of the 20
  queries was answered with a status that is not terminal. (A query that fails, or whose
  answer has no status string, ends the loop by an exception: neither a terminal status
  nor the unknown outcome.) On 19 replies \<open>pending\<close> and then \<open>success\<close> with ledger 12345
  the loop returns the confirmation with that ledger after 20 queries.
\<close>

theorem poll_loop_bounded:
  "\<exists>n \<le> 20.
     snd (wait_for_confirmation server tok h replies) =
       concat (replicate n [Sleep 2, status_query server tok h])
     \<and> (\<forall>i. Suc i < n \<longrightarrow> returned_nonterminal (replies i))
     \<and> (fst (wait_for_confirmation server tok h replies) = StatusUnknown
          \<longleftrightarrow> (\<forall>i < 20. returned_nonterminal (replies i)))
     \<and> (\<forall>k s. k < 20 \<and> (\<forall>i < k. returned_nonterminal (replies i))
            \<and> returned_status (replies k) = Some s \<and> is_terminal s \<longrightarrow>
          n = Suc k
          \<and> (map lower_char s = ''success'' \<longrightarrow>
               (\<exists>kvs. replies k = OkJson (JObj kvs) \<and>
                  fst (wait_for_confirmation server tok h replies) =
                    Confirmed (case map_of kvs ''ledger'' of
                                 None \<Rightarrow> JStr ''pending'' | Some l \<Rightarrow> l)))
          \<and> (map lower_char s = ''failed'' \<longrightarrow>
               (\<exists>kvs. replies k = OkJson (JObj kvs) \<and>
                  fst (wait_for_confirmation server tok h replies) =
                    TransactionFailed (case map_of kvs ''resultXdr'' of
                                 None \<Rightarrow> JStr ''N/A'' | Some x \<Rightarrow> x))))"
proof -
  let ?run = "poll_loop 20 0 server tok h replies"
  have runs: "\<exists>n \<le> 20. snd ?run = concat (replicate n [Sleep 2, status_query server tok h])
     \<and> (\<forall>i. Suc i < n \<longrightarrow> check_attempt (replies i) = None)
     \<and> (if \<forall>i < 20. check_attempt (replies i) = None
        then n = 20 \<and> fst ?run = StatusUnknown
        else 0 < n \<and> check_attempt (replies (n - 1)) = Some (fst ?run))"
    using poll_loop_runs [of 20 0 server tok h replies] by (simp only: add_0)
  then obtain n where n: "n \<le> 20"
    and tr: "snd ?run = concat (replicate n [Sleep 2, status_query server tok h])"
    and cont: "\<forall>i. Suc i < n \<longrightarrow> check_attempt (replies i) = None"
    and fin: "if \<forall>i < 20. check_attempt (replies i) = None
        then n = 20 \<and> fst ?run = StatusUnknown
        else 0 < n \<and> check_attempt (replies (n - 1)) = Some (fst ?run)"
    by (elim exE conjE) (rule that, assumption+)
  have unknown: "fst ?run = StatusUnknown \<longleftrightarrow> (\<forall>i < 20. returned_nonterminal (replies i))"
  proof (cases "\<forall>i < 20. check_attempt (replies i) = None")
    case True
    with fin show ?thesis by (simp add: check_attempt_None)
  next
    case False
    have "check_attempt (replies (n - 1)) = Some (fst ?run)"
      using fin unfolding if_not_P [OF False] by simp
    then have "fst ?run \<noteq> StatusUnknown"
      using check_attempt_not_unknown [of "replies (n - 1)"] by auto
    with False show ?thesis by (simp add: check_attempt_None)
  qed
  have first: "n = Suc k
          \<and> (map lower_char s = ''success'' \<longrightarrow>
               (\<exists>kvs. replies k = OkJson (JObj kvs) \<and>
                  fst ?run = Confirmed (case map_of kvs ''ledger'' of
                                 None \<Rightarrow> JStr ''pending'' | Some l \<Rightarrow> l)))
          \<and> (map lower_char s = ''failed'' \<longrightarrow>
               (\<exists>kvs. replies k = OkJson (JObj kvs) \<and>
                  fst ?run = TransactionFailed (case map_of kvs ''resultXdr'' of
                                 None \<Rightarrow> JStr ''N/A'' | Some x \<Rightarrow> x)))"
    if k: "k < 20" and before: "\<forall>i < k. returned_nonterminal (replies i)"
      and s: "returned_status (replies k) = Some s" and trm: "is_terminal s" for k s
  proof -
    have stop: "check_attempt (replies k) \<noteq> None"
      using s trm by (simp add: check_attempt_None returned_nonterminal_def)
    have neg: "\<not> (\<forall>i < 20. check_attempt (replies i) = None)"
    proof
      assume "\<forall>i < 20. check_attempt (replies i) = None"
      then have "check_attempt (replies k) = None" using k by simp
      with stop show False by simp
    qed
    have pos: "0 < n" and last: "check_attempt (replies (n - 1)) = Some (fst ?run)"
      using fin unfolding if_not_P [OF neg] by simp_all
    have "\<not> Suc k < n"
    proof
      assume "Suc k < n"
      with cont have "check_attempt (replies k) = None" by simp
      with stop show False by simp
    qed
    moreover have "\<not> n - 1 < k"
    proof
      assume "n - 1 < k"
      with before have "returned_nonterminal (replies (n - 1))" by simp
      then have "check_attempt (replies (n - 1)) = None" by (simp only: check_attempt_None)
      with last show False by simp
    qed
    ultimately have nk: "n = Suc k" using pos by linarith
    with last have out: "check_attempt (replies k) = Some (fst ?run)" by simp
    from check_attempt_terminal [OF s] out nk show ?thesis by auto
  qed
  have cont': "\<forall>i. Suc i < n \<longrightarrow> returned_nonterminal (replies i)"
    using cont by (simp only: check_attempt_None)
  have first': "\<forall>k s. k < 20 \<and> (\<forall>i < k. returned_nonterminal (replies i))
            \<and> returned_status (replies k) = Some s \<and> is_terminal s \<longrightarrow>
          n = Suc k
          \<and> (map lower_char s = ''success'' \<longrightarrow>
               (\<exists>kvs. replies k = OkJson (JObj kvs) \<and>
                  fst ?run = Confirmed (case map_of kvs ''ledger'' of
                                 None \<Rightarrow> JStr ''pending'' | Some l \<Rightarrow> l)))
          \<and> (map lower_char s = ''failed'' \<longrightarrow>
               (\<exists>kvs. replies k = OkJson (JObj kvs) \<and>
                  fst ?run = TransactionFailed (case map_of kvs ''resultXdr'' of
                                 None \<Rightarrow> JStr ''N/A'' | Some x \<Rightarrow> x)))"
    by (intro allI impI, elim conjE, rule first)
  show ?thesis
    unfolding wait_for_confirmation_def
    by (intro exI [of _ n] conjI n tr cont' unknown first')
qed

theorem poll_loop_bounded_witness:
  "wait_for_confirmation ''s'' ''tok'' (JStr ''ab12'') scenario_replies =
     (Confirmed (JInt 12345),
      concat (replicate 20 [Sleep 2, status_query ''s'' ''tok'' (JStr ''ab12'')]))"
proof -
  let ?run = "wait_for_confirmation ''s'' ''tok'' (JStr ''ab12'') scenario_replies"
  from poll_loop_bounded [of "''s''" "''tok''" "JStr ''ab12''" scenario_replies]
  obtain n where tr: "snd ?run = concat (replicate n [Sleep 2, status_query ''s'' ''tok'' (JStr ''ab12'')])"
    and first: "\<forall>k s. k < 20 \<and> (\<forall>i < k. returned_nonterminal (scenario_replies i))
            \<and> returned_status (scenario_replies k) = Some s \<and> is_terminal s \<longrightarrow>
          n = Suc k
          \<and> (map lower_char s = ''success'' \<longrightarrow>
               (\<exists>kvs. scenario_replies k = OkJson (JObj kvs) \<and>
                  fst ?run = Confirmed (case map_of kvs ''ledger'' of
                                 None \<Rightarrow> JStr ''pending'' | Some l \<Rightarrow> l)))
          \<and> (map lower_char s = ''failed'' \<longrightarrow>
               (\<exists>kvs. scenario_replies k = OkJson (JObj kvs) \<and>
                  fst ?run = TransactionFailed (case map_of kvs ''resultXdr'' of
                                 None \<Rightarrow> JStr ''N/A'' | Some x \<Rightarrow> x)))"
    by (elim exE conjE) (rule that)
  have st: "returned_status (scenario_replies 19) = Some ''success''"
    by (simp add: scenario_replies_def)
  have low: "map lower_char ''success'' = ''success''"
    by (simp add: lower_char_def)
  have trm: "is_terminal ''success''"
    unfolding is_terminal_def by (rule disjI1) (rule low)
  have pend: "\<forall>i < 19. returned_nonterminal (scenario_replies i)"
    using scenario_pending by blast
  have hyp: "(19::nat) < 20 \<and> (\<forall>i < 19. returned_nonterminal (scenario_replies i))
            \<and> returned_status (scenario_replies 19) = Some ''success'' \<and> is_terminal ''success''"
    using pend st trm by simp
  note at19 = first [rule_format, OF hyp]
  from at19 have n: "n = Suc 19" by (rule conjunct1)
  from at19 have "map lower_char ''success'' = ''success'' \<longrightarrow>
      (\<exists>kvs. scenario_replies 19 = OkJson (JObj kvs) \<and>
      fst ?run = Confirmed (case map_of kvs ''ledger'' of None \<Rightarrow> JStr ''pending'' | Some l \<Rightarrow> l))"
    by (rule conjunct2 [THEN conjunct1])
  then have "\<exists>kvs. scenario_replies 19 = OkJson (JObj kvs) \<and>
      fst ?run = Confirmed (case map_of kvs ''ledger'' of None \<Rightarrow> JStr ''pending'' | Some l \<Rightarrow> l)"
    using low by (rule mp)
  then obtain kvs where k1: "scenario_replies 19 = OkJson (JObj kvs)"
    and k2: "fst ?run = Confirmed (case map_of kvs ''ledger'' of None \<Rightarrow> JStr ''pending'' | Some l \<Rightarrow> l)"
    by (elim exE conjE) (rule that, assumption+)
  from k1 have "kvs = [(''status'', JStr ''success''), (''ledger'', JInt 12345)]"
    by (simp add: scenario_replies_def)
  with k2 have out: "fst ?run = Confirmed (JInt 12345)" by simp
  from n have n20: "n = 20" by simp
  show ?thesis
    using out tr unfolding n20 by (simp only: prod_eq_iff fst_conv snd_conv simp_thms)
qed

end
